theory Spec2Isabelle
  imports Complex_Main
begin

section \<open>The favicon animator of js/favicon-animator.js\<close>

text \<open>
  The module keeps six private variables (\<open>canvas\<close>, \<open>context\<close>, \<open>button\<close>,
  \<open>favicon\<close>, \<open>animationProgress\<close>, \<open>animationInterval\<close>) and works on three
  elements of the document, on the browser's table of interval timers and on the
  console. All of it is one record, \<open>world\<close>, passed through every function.

  Numbers: \<open>animationProgress\<close> only ever holds integers (it starts at 0 and changes
  by \<open>++\<close> and by \<open>= 0\<close>), so it is an \<open>int\<close>. Coordinates are exact reals: the
  rounding of IEEE doubles in \<open>(CANVAS_SIZE / 25) * animationProgress\<close> is outside the
  model.
\<close>

subsection \<open>The drawing surface\<close>

datatype path_cmd = MoveTo real real | LineTo real real

datatype style =
    Colour string
  | LinearGradient real real real real "(real \<times> string) list"

datatype paint_op =
    Stroke "path_cmd list" style real
  | Clear real real real real

record canvas_el =
  cv_width :: real
  cv_height :: real
  supports2d :: bool
  strokeStyle :: style
  lineWidth :: real
  cv_path :: "path_cmd list"
  bitmap :: "paint_op list"

text \<open>
  \<open>bitmap\<close> is what has been painted since the surface was last blank, in painting
  order. \<open>clearRect\<close> with a rectangle that covers the whole surface makes it blank
  again; a smaller rectangle is recorded as a paint operation of its own.
\<close>

definition clearRect :: "real \<Rightarrow> real \<Rightarrow> real \<Rightarrow> real \<Rightarrow> canvas_el \<Rightarrow> canvas_el" where
  "clearRect x y w h c =
     (if x \<le> 0 \<and> y \<le> 0 \<and> cv_width c \<le> x + w \<and> cv_height c \<le> y + h
      then c\<lparr>bitmap := []\<rparr>
      else c\<lparr>bitmap := bitmap c @ [Clear x y w h]\<rparr>)"

definition beginPath :: "canvas_el \<Rightarrow> canvas_el" where
  "beginPath c = c\<lparr>cv_path := []\<rparr>"

definition moveTo :: "real \<Rightarrow> real \<Rightarrow> canvas_el \<Rightarrow> canvas_el" where
  "moveTo x y c = c\<lparr>cv_path := cv_path c @ [MoveTo x y]\<rparr>"

definition lineTo :: "real \<Rightarrow> real \<Rightarrow> canvas_el \<Rightarrow> canvas_el" where
  "lineTo x y c = c\<lparr>cv_path := cv_path c @ [LineTo x y]\<rparr>"

definition stroke :: "canvas_el \<Rightarrow> canvas_el" where
  "stroke c = c\<lparr>bitmap := bitmap c @ [Stroke (cv_path c) (strokeStyle c) (lineWidth c)]\<rparr>"

definition createLinearGradient :: "real \<Rightarrow> real \<Rightarrow> real \<Rightarrow> real \<Rightarrow> style" where
  "createLinearGradient x0 y0 x1 y1 = LinearGradient x0 y0 x1 y1 []"

fun addColorStop :: "real \<Rightarrow> string \<Rightarrow> style \<Rightarrow> style" where
  "addColorStop off col (LinearGradient x0 y0 x1 y1 stops) =
     LinearGradient x0 y0 x1 y1 (stops @ [(off, col)])"
| "addColorStop off col (Colour k) = Colour k"

text \<open>
  Assigning \<open>canvas.width\<close> or \<open>canvas.height\<close> sets the dimension and resets the
  surface: blank bitmap, empty path, default stroke style and line width.
\<close>

definition reset_surface :: "canvas_el \<Rightarrow> canvas_el" where
  "reset_surface c =
     c\<lparr>strokeStyle := Colour ''#000000'', lineWidth := 1, cv_path := [], bitmap := []\<rparr>"

definition set_width :: "real \<Rightarrow> canvas_el \<Rightarrow> canvas_el" where
  "set_width w c = reset_surface (c\<lparr>cv_width := w\<rparr>)"

definition set_height :: "real \<Rightarrow> canvas_el \<Rightarrow> canvas_el" where
  "set_height h c = reset_surface (c\<lparr>cv_height := h\<rparr>)"

text \<open>A sequence of calls on one object, in the order written.\<close>

definition calls :: "('s \<Rightarrow> 's) list \<Rightarrow> 's \<Rightarrow> 's" where
  "calls fs s = fold (\<lambda>f. f) fs s"

subsection \<open>The other elements, timers, console\<close>

datatype handler = HandleButtonHover

datatype callback = AnimateFrame

record button_el =
  disabled :: bool
  listeners :: "(string \<times> handler) list"

datatype url =
    Href string
  | DataURL string real real "paint_op list"

record link_el =
  href :: url

record timer =
  tm_id :: nat
  tm_callback :: callback
  tm_delay :: nat

datatype log_entry = LogError string | LogInfo string

datatype node = FirstCanvas | FirstButton | FirstIconLink

datatype js_error = TypeError

record world =
  doc_canvas :: "canvas_el option"
  doc_button :: "button_el option"
  doc_favicon :: "link_el option"
  timers :: "timer list"
  next_timer :: nat
  console :: "log_entry list"
  canvas :: "node option"
  context_var :: "node option"
  button :: "node option"
  favicon :: "node option"
  animationProgress :: int
  animationInterval :: "nat option"

text \<open>
  \<open>doc_canvas\<close>, \<open>doc_button\<close> and \<open>doc_favicon\<close> are the first \<open>canvas\<close>, the
  first \<open>button\<close> and the first \<open>link[rel*="icon"]\<close> of the document, \<open>None\<close> when
  the document has none. The module's variables \<open>canvas\<close>, \<open>button\<close>, \<open>favicon\<close>
  hold \<open>null\<close> (\<open>None\<close>) or a reference to that element; \<open>context_var\<close> is the
  module's variable \<open>context\<close>, \<open>null\<close> or the 2D context of the canvas.
  \<open>timers\<close> are the interval timers that have been set and not cleared.
\<close>

definition CANVAS_SIZE :: real where
  "CANVAS_SIZE = 32"

definition ANIMATION_DURATION :: int where
  "ANIMATION_DURATION = 100"

definition ANIMATION_SPEED :: nat where
  "ANIMATION_SPEED = 60"

definition GRADIENT_START_COLOR :: string where
  "GRADIENT_START_COLOR = ''#c7f0fe''"

definition GRADIENT_END_COLOR :: string where
  "GRADIENT_END_COLOR = ''#56d3c9''"

definition console_error :: "string \<Rightarrow> world \<Rightarrow> world" where
  "console_error m s = s\<lparr>console := console s @ [LogError m]\<rparr>"

definition console_log :: "string \<Rightarrow> world \<Rightarrow> world" where
  "console_log m s = s\<lparr>console := console s @ [LogInfo m]\<rparr>"

definition setInterval :: "callback \<Rightarrow> nat \<Rightarrow> world \<Rightarrow> nat \<times> world" where
  "setInterval cb ms s =
     (next_timer s,
      s\<lparr>timers := timers s @ [\<lparr>tm_id = next_timer s, tm_callback = cb, tm_delay = ms\<rparr>],
        next_timer := Suc (next_timer s)\<rparr>)"

definition clearInterval :: "nat option \<Rightarrow> world \<Rightarrow> world" where
  "clearInterval h s =
     (case h of
        None \<Rightarrow> s
      | Some i \<Rightarrow> s\<lparr>timers := filter (\<lambda>t. tm_id t \<noteq> i) (timers s)\<rparr>)"

definition getContext :: "world \<Rightarrow> node option" where
  "getContext s =
     (case doc_canvas s of
        None \<Rightarrow> None
      | Some c \<Rightarrow> if supports2d c then Some FirstCanvas else None)"

definition addEventListener :: "string \<Rightarrow> handler \<Rightarrow> button_el \<Rightarrow> button_el" where
  "addEventListener ty h b =
     (if (ty, h) \<in> set (listeners b) then b
      else b\<lparr>listeners := listeners b @ [(ty, h)]\<rparr>)"

subsection \<open>The module's functions\<close>

definition setupCanvas :: "world \<Rightarrow> bool \<times> world" where
  "setupCanvas s =
     (if canvas s = None then (False, console_error ''Canvas element not found'' s)
      else
        let s1 = s\<lparr>context_var := getContext s\<rparr> in
        if context_var s1 = None
        then (False, console_error ''Canvas 2D context not supported'' s1)
        else
          let gradient =
                addColorStop 1 GRADIENT_END_COLOR
                  (addColorStop 0 GRADIENT_START_COLOR
                    (createLinearGradient 0 0 CANVAS_SIZE CANVAS_SIZE))
          in (True,
              s1\<lparr>doc_canvas :=
                    map_option (\<lambda>c. c\<lparr>strokeStyle := gradient, lineWidth := 8\<rparr>)
                      (doc_canvas s1)\<rparr>))"

text \<open>
  The chain of \<open>if\<close>/\<open>else if\<close> of \<open>animateFrame\<close> (the four stages), as the
  calls it makes on the drawing context.
\<close>

definition draw_edges :: "int \<Rightarrow> canvas_el \<Rightarrow> canvas_el" where
  "draw_edges p c =
     (if p \<le> 25 then
        (let currentWidth = (CANVAS_SIZE / 25) * of_int p
         in calls [moveTo 0 0, lineTo currentWidth 0] c)
      else if p > 25 \<and> p \<le> 50 then
        (let currentHeight = (CANVAS_SIZE / 25) * of_int (p - 25)
         in calls [moveTo 0 0, lineTo CANVAS_SIZE 0,
                   moveTo CANVAS_SIZE 0, lineTo CANVAS_SIZE currentHeight] c)
      else if p > 50 \<and> p \<le> 75 then
        (let currentWidth = - ((CANVAS_SIZE / 25) * of_int (p - 75))
         in calls [moveTo 0 0, lineTo CANVAS_SIZE 0,
                   moveTo CANVAS_SIZE 0, lineTo CANVAS_SIZE CANVAS_SIZE,
                   moveTo CANVAS_SIZE CANVAS_SIZE, lineTo currentWidth CANVAS_SIZE] c)
      else if p > 75 \<and> p \<le> ANIMATION_DURATION then
        (let currentHeight = - ((CANVAS_SIZE / 25) * of_int (p - ANIMATION_DURATION))
         in calls [moveTo 0 0, lineTo CANVAS_SIZE 0,
                   moveTo CANVAS_SIZE 0, lineTo CANVAS_SIZE CANVAS_SIZE,
                   moveTo CANVAS_SIZE CANVAS_SIZE, lineTo 0 CANVAS_SIZE,
                   moveTo 0 CANVAS_SIZE, lineTo 0 currentHeight] c)
      else c)"

definition toDataURL :: "string \<Rightarrow> canvas_el \<Rightarrow> url" where
  "toDataURL mime c = DataURL mime (cv_width c) (cv_height c) (bitmap c)"

text \<open>
  \<open>animateFrame\<close> throws a \<open>TypeError\<close> where it reads a property of \<open>null\<close>:
  \<open>context.clearRect\<close>, \<open>favicon.href\<close>, \<open>canvas.toDataURL\<close>.
\<close>

definition animateFrame :: "world \<Rightarrow> js_error + world" where
  "animateFrame s =
     (case (context_var s, doc_canvas s) of
        (Some _, Some c) \<Rightarrow>
          (let c' = stroke (draw_edges (animationProgress s)
                      (beginPath (clearRect 0 0 CANVAS_SIZE CANVAS_SIZE c)))
           in case (favicon s, canvas s, doc_favicon s) of
                (Some _, Some _, Some f) \<Rightarrow>
                  (let s1 = s\<lparr>doc_canvas := Some c',
                               doc_favicon := Some (f\<lparr>href := toDataURL ''image/png'' c'\<rparr>)\<rparr>
                   in if animationProgress s1 = ANIMATION_DURATION
                      then Inr ((clearInterval (animationInterval s1) s1)
                                  \<lparr>animationInterval := None\<rparr>)
                      else Inr (s1\<lparr>animationProgress := animationProgress s1 + 1\<rparr>))
              | _ \<Rightarrow> Inl TypeError)
      | _ \<Rightarrow> Inl TypeError)"

definition setupButton :: "world \<Rightarrow> world" where
  "setupButton s =
     (if button s = None then console_error ''Button element not found'' s
      else s\<lparr>doc_button :=
               map_option (addEventListener ''mouseenter'' HandleButtonHover) (doc_button s)\<rparr>)"

definition handleButtonHover :: "world \<Rightarrow> world" where
  "handleButtonHover s =
     (let s1 = s\<lparr>animationProgress := 0\<rparr>;
          (h, s2) = setInterval AnimateFrame ANIMATION_SPEED s1;
          s3 = s2\<lparr>animationInterval := Some h\<rparr>
      in s3\<lparr>doc_button := map_option (\<lambda>b. b\<lparr>disabled := True\<rparr>) (doc_button s3)\<rparr>)"

definition resetButton :: "world \<Rightarrow> world" where
  "resetButton s =
     (case (button s, doc_button s) of
        (Some _, Some b) \<Rightarrow>
          if disabled b then s\<lparr>doc_button := Some (b\<lparr>disabled := False\<rparr>)\<rparr> else s
      | _ \<Rightarrow> s)"

definition querySelector_canvas :: "world \<Rightarrow> node option" where
  "querySelector_canvas s = map_option (\<lambda>_. FirstCanvas) (doc_canvas s)"

definition querySelector_button :: "world \<Rightarrow> node option" where
  "querySelector_button s = map_option (\<lambda>_. FirstButton) (doc_button s)"

definition querySelector_icon :: "world \<Rightarrow> node option" where
  "querySelector_icon s = map_option (\<lambda>_. FirstIconLink) (doc_favicon s)"

definition init :: "world \<Rightarrow> bool \<times> world" where
  "init s0 =
     (let s1 = s0\<lparr>canvas := querySelector_canvas s0,
                  button := querySelector_button s0,
                  favicon := querySelector_icon s0\<rparr>
      in if canvas s1 = None \<or> button s1 = None \<or> favicon s1 = None
         then (False, console_error ''Required DOM elements not found'' s1)
         else
           let s2 = s1\<lparr>doc_canvas :=
                         map_option (\<lambda>c. set_height CANVAS_SIZE (set_width CANVAS_SIZE c))
                           (doc_canvas s1)\<rparr>;
               (ok, s3) = setupCanvas s2
           in if \<not> ok then (False, s3)
              else (True,
                    console_log ''FaviconAnimator initialized successfully''
                      (resetButton (setupButton s3))))"

subsection \<open>Reading a path as line segments\<close>

type_synonym point = "real \<times> real"

fun segments_from :: "point \<Rightarrow> path_cmd list \<Rightarrow> (point \<times> point) list" where
  "segments_from pt [] = []"
| "segments_from pt (MoveTo x y # cs) = segments_from (x, y) cs"
| "segments_from pt (LineTo x y # cs) = (pt, (x, y)) # segments_from (x, y) cs"

definition segments :: "path_cmd list \<Rightarrow> (point \<times> point) list" where
  "segments cs = segments_from (0, 0) cs"

fun seg_len :: "point \<times> point \<Rightarrow> real" where
  "seg_len ((x0, y0), (x1, y1)) =
     (if y0 = y1 then \<bar>x1 - x0\<bar>
      else if x0 = x1 then \<bar>y1 - y0\<bar>
      else sqrt ((x1 - x0)\<^sup>2 + (y1 - y0)\<^sup>2))"

subsection \<open>Pages, events and runs\<close>

text \<open>
  The state right after the script has been evaluated (lines 24 to 31 of the module):
  every variable \<open>null\<close>, \<open>animationProgress = 0\<close>, no timer set, and a document
  whose first canvas, button and icon link are the given ones (a canvas by its
  width, height and whether \<open>getContext("2d")\<close> gives a context; a button by whether
  it bears \<open>disabled\<close>; a link by its \<open>href\<close>). No listener is attached yet: the
  handler is private to the module.
\<close>

definition fresh_canvas :: "real \<times> real \<times> bool \<Rightarrow> canvas_el" where
  "fresh_canvas d =
     (case d of (w, h, ok) \<Rightarrow>
        \<lparr>cv_width = w, cv_height = h, supports2d = ok, strokeStyle = Colour ''#000000'',
         lineWidth = 1, cv_path = [], bitmap = []\<rparr>)"

definition fresh_button :: "bool \<Rightarrow> button_el" where
  "fresh_button d = \<lparr>disabled = d, listeners = []\<rparr>"

definition fresh_link :: "string \<Rightarrow> link_el" where
  "fresh_link u = \<lparr>href = Href u\<rparr>"

definition module_load :: "(real \<times> real \<times> bool) option \<Rightarrow> bool option \<Rightarrow> string option \<Rightarrow> world" where
  "module_load cv bt lk =
     \<lparr>doc_canvas = map_option fresh_canvas cv,
      doc_button = map_option fresh_button bt,
      doc_favicon = map_option fresh_link lk,
      timers = [], next_timer = 1, console = [],
      canvas = None, context_var = None, button = None, favicon = None,
      animationProgress = 0, animationInterval = None\<rparr>"

text \<open>
  What can happen afterwards: \<open>FaviconAnimator.init()\<close> is called, the pointer enters
  the button (the handler runs when it has been attached, whether or not the button
  bears \<open>disabled\<close>), or a timer that is still set fires. An uncaught exception ends
  the run.
\<close>

datatype event = CallInit | MouseEnter | Tick nat

definition listening :: "world \<Rightarrow> bool" where
  "listening s =
     (case doc_button s of
        None \<Rightarrow> False
      | Some b \<Rightarrow> (''mouseenter'', HandleButtonHover) \<in> set (listeners b))"

definition live :: "nat \<Rightarrow> world \<Rightarrow> bool" where
  "live i s = (i \<in> set (map tm_id (timers s)))"

definition fire :: "event \<Rightarrow> world \<Rightarrow> js_error + world" where
  "fire e s =
     (case e of
        CallInit \<Rightarrow> Inr (snd (init s))
      | MouseEnter \<Rightarrow> if listening s then Inr (handleButtonHover s) else Inr s
      | Tick i \<Rightarrow> if live i s then animateFrame s else Inr s)"

fun run :: "event list \<Rightarrow> world \<Rightarrow> js_error + world" where
  "run [] s = Inr s"
| "run (e # es) s = (case fire e s of Inl err \<Rightarrow> Inl err | Inr s' \<Rightarrow> run es s')"


subsection \<open>What a successful \<open>init\<close> leaves behind\<close>

definition gradient_style :: style where
  "gradient_style =
     LinearGradient 0 0 CANVAS_SIZE CANVAS_SIZE
       [(0, GRADIENT_START_COLOR), (1, GRADIENT_END_COLOR)]"

definition ready :: "world \<Rightarrow> bool" where
  "ready s =
     (context_var s \<noteq> None \<and> canvas s \<noteq> None \<and> button s \<noteq> None \<and> favicon s \<noteq> None \<and>
      doc_button s \<noteq> None \<and> doc_favicon s \<noteq> None \<and>
      (case doc_canvas s of
         None \<Rightarrow> False
       | Some c \<Rightarrow> supports2d c \<and> cv_width c = CANVAS_SIZE \<and> cv_height c = CANVAS_SIZE \<and>
                  strokeStyle c = gradient_style \<and> lineWidth c = 8))"

text \<open>What a frame left on the surface, and the favicon it published.\<close>

definition frame_bitmap :: "js_error + world \<Rightarrow> paint_op list option" where
  "frame_bitmap r =
     (case r of Inl err \<Rightarrow> None | Inr s \<Rightarrow> map_option bitmap (doc_canvas s))"

definition frame_href :: "js_error + world \<Rightarrow> url option" where
  "frame_href r =
     (case r of Inl err \<Rightarrow> None | Inr s \<Rightarrow> map_option href (doc_favicon s))"

definition frame_segments :: "js_error + world \<Rightarrow> (point \<times> point) list" where
  "frame_segments r =
     (case frame_bitmap r of
        Some [Stroke cs sty lw] \<Rightarrow> segments cs
      | _ \<Rightarrow> [])"

text \<open>The page of the repository: a canvas, a button, an icon link.\<close>

definition page0 :: world where
  "page0 = module_load (Some (300, 150, True)) (Some False) (Some ''favicon.ico'')"

definition page_ready :: world where
  "page_ready = snd (init page0)"





section \<open>Properties\<close>

lemma calls_simps: "calls [] s = s" "calls (f # fs) s = calls fs (f s)"
  by (simp_all add: calls_def)

lemma draw_edges_path:
  "cv_path (draw_edges p c) = cv_path c @
     (if p \<le> 25 then [MoveTo 0 0, LineTo ((CANVAS_SIZE / 25) * of_int p) 0]
      else if p \<le> 50 then
        [MoveTo 0 0, LineTo CANVAS_SIZE 0, MoveTo CANVAS_SIZE 0,
         LineTo CANVAS_SIZE ((CANVAS_SIZE / 25) * of_int (p - 25))]
      else if p \<le> 75 then
        [MoveTo 0 0, LineTo CANVAS_SIZE 0, MoveTo CANVAS_SIZE 0, LineTo CANVAS_SIZE CANVAS_SIZE,
         MoveTo CANVAS_SIZE CANVAS_SIZE, LineTo (- ((CANVAS_SIZE / 25) * of_int (p - 75))) CANVAS_SIZE]
      else if p \<le> ANIMATION_DURATION then
        [MoveTo 0 0, LineTo CANVAS_SIZE 0, MoveTo CANVAS_SIZE 0, LineTo CANVAS_SIZE CANVAS_SIZE,
         MoveTo CANVAS_SIZE CANVAS_SIZE, LineTo 0 CANVAS_SIZE,
         MoveTo 0 CANVAS_SIZE, LineTo 0 (- ((CANVAS_SIZE / 25) * of_int (p - ANIMATION_DURATION)))]
      else [])"
  by (simp add: draw_edges_def calls_simps moveTo_def lineTo_def Let_def)

lemma draw_edges_other:
  "cv_width (draw_edges p c) = cv_width c" "cv_height (draw_edges p c) = cv_height c"
  "supports2d (draw_edges p c) = supports2d c" "strokeStyle (draw_edges p c) = strokeStyle c"
  "lineWidth (draw_edges p c) = lineWidth c" "bitmap (draw_edges p c) = bitmap c"
  by (simp_all add: draw_edges_def calls_simps moveTo_def lineTo_def Let_def)

lemma beginPath_path: "cv_path (beginPath c) = []"
  by (simp add: beginPath_def)

lemma ready_elims:
  assumes "ready s"
  obtains c f b where "doc_canvas s = Some c" "doc_favicon s = Some f" "doc_button s = Some b"
    "supports2d c" "cv_width c = CANVAS_SIZE" "cv_height c = CANVAS_SIZE"
    "strokeStyle c = gradient_style" "lineWidth c = 8"
    "context_var s \<noteq> None" "canvas s \<noteq> None" "button s \<noteq> None" "favicon s \<noteq> None"
  using assms by (auto simp: ready_def split: option.splits)

lemma animateFrame_ready:
  assumes "ready s"
  shows "\<exists>s'. animateFrame s = Inr s' \<and> ready s' \<and>
           frame_bitmap (Inr s') =
             Some [Stroke (cv_path (draw_edges (animationProgress s) (beginPath c0))) gradient_style 8] \<and>
           frame_href (Inr s') =
             Some (DataURL ''image/png'' CANVAS_SIZE CANVAS_SIZE
               [Stroke (cv_path (draw_edges (animationProgress s) (beginPath c0))) gradient_style 8]) \<and>
           doc_button s' = doc_button s \<and> next_timer s' = next_timer s \<and>
           timers s' = (if animationProgress s = ANIMATION_DURATION
                        then timers (clearInterval (animationInterval s) s) else timers s) \<and>
           animationInterval s' = (if animationProgress s = ANIMATION_DURATION
                        then None else animationInterval s) \<and>
           animationProgress s' = (if animationProgress s = ANIMATION_DURATION
                        then animationProgress s else animationProgress s + 1)"
proof -
  from assms obtain c f b where h: "doc_canvas s = Some c" "doc_favicon s = Some f"
      "doc_button s = Some b" "supports2d c" "cv_width c = CANVAS_SIZE"
      "cv_height c = CANVAS_SIZE" "strokeStyle c = gradient_style" "lineWidth c = 8"
      "context_var s \<noteq> None" "canvas s \<noteq> None" "button s \<noteq> None" "favicon s \<noteq> None"
    by (rule ready_elims)
  have p: "cv_path (draw_edges p (beginPath x)) = cv_path (draw_edges p (beginPath c0))" for p x
    by (simp add: draw_edges_path beginPath_path)
  from h show ?thesis
    by (auto simp: animateFrame_def Let_def ready_def frame_bitmap_def frame_href_def
        stroke_def draw_edges_other clearRect_def beginPath_def toDataURL_def clearInterval_def
        p [of _ "c\<lparr>bitmap := []\<rparr>", unfolded beginPath_def]
        split: option.splits)
qed

lemma init_keeps:
  "timers (snd (init s)) = timers s" "next_timer (snd (init s)) = next_timer s"
  "animationProgress (snd (init s)) = animationProgress s"
  "animationInterval (snd (init s)) = animationInterval s"
  "doc_favicon (snd (init s)) = doc_favicon s"
  by (simp_all add: init_def Let_def setupCanvas_def console_error_def console_log_def
      resetButton_def setupButton_def split: option.splits prod.splits)

lemma init_missing:
  assumes "doc_canvas s = None \<or> doc_button s = None \<or> doc_favicon s = None"
  shows "fst (init s) = False" "doc_canvas (snd (init s)) = doc_canvas s"
    "doc_button (snd (init s)) = doc_button s"
  using assms
  by (auto simp: init_def Let_def console_error_def querySelector_canvas_def
      querySelector_button_def querySelector_icon_def)

lemma init_no2d:
  assumes "doc_canvas s = Some c" "\<not> supports2d c" "doc_button s = Some b" "doc_favicon s = Some f"
  shows "fst (init s) = False"
    "doc_canvas (snd (init s)) = Some (set_height CANVAS_SIZE (set_width CANVAS_SIZE c))"
    "doc_button (snd (init s)) = Some b"
  using assms
  by (auto simp: init_def Let_def console_error_def querySelector_canvas_def
      querySelector_button_def querySelector_icon_def setupCanvas_def getContext_def
      set_height_def set_width_def reset_surface_def)

lemma init_ok:
  assumes "doc_canvas s = Some c" "supports2d c" "doc_button s = Some b" "doc_favicon s = Some f"
  shows "fst (init s) = True" "ready (snd (init s))" "listening (snd (init s))"
  using assms
  by (auto simp: init_def Let_def console_log_def querySelector_canvas_def
      querySelector_button_def querySelector_icon_def setupCanvas_def getContext_def
      set_height_def set_width_def reset_surface_def setupButton_def resetButton_def
      addEventListener_def ready_def listening_def createLinearGradient_def gradient_style_def)

lemma handleButtonHover_fields:
  "animationProgress (handleButtonHover s) = 0"
  "timers (handleButtonHover s) =
     timers s @ [\<lparr>tm_id = next_timer s, tm_callback = AnimateFrame, tm_delay = ANIMATION_SPEED\<rparr>]"
  "animationInterval (handleButtonHover s) = Some (next_timer s)"
  "next_timer (handleButtonHover s) = Suc (next_timer s)"
  "doc_button (handleButtonHover s) = map_option (\<lambda>b. b\<lparr>disabled := True\<rparr>) (doc_button s)"
  "doc_canvas (handleButtonHover s) = doc_canvas s"
  "doc_favicon (handleButtonHover s) = doc_favicon s"
  "canvas (handleButtonHover s) = canvas s" "context_var (handleButtonHover s) = context_var s"
  "button (handleButtonHover s) = button s" "favicon (handleButtonHover s) = favicon s"
  by (simp_all add: handleButtonHover_def setInterval_def Let_def)

lemma handleButtonHover_ready: "ready s \<Longrightarrow> ready (handleButtonHover s)"
  by (auto simp: ready_def handleButtonHover_fields split: option.splits)

lemma handleButtonHover_listening: "listening (handleButtonHover s) = listening s"
  by (auto simp: listening_def handleButtonHover_fields split: option.splits)











lemma ready_page_ready: "ready page_ready"
  unfolding page_ready_def page0_def
  by (rule init_ok(2) [where c = "fresh_canvas (300, 150, True)" and b = "fresh_button False"
        and f = "fresh_link ''favicon.ico''"])
     (simp_all add: module_load_def fresh_canvas_def)

lemma ready_progress: "ready (s\<lparr>animationProgress := p\<rparr>) = ready s"
  by (simp add: ready_def)

lemma frame_segments_ready:
  assumes "ready s"
  shows "frame_segments (animateFrame s) =
           segments (cv_path (draw_edges (animationProgress s)
             (beginPath (fresh_canvas (CANVAS_SIZE, CANVAS_SIZE, True)))))"
  using animateFrame_ready [OF assms, of "fresh_canvas (CANVAS_SIZE, CANVAS_SIZE, True)"]
  by (auto simp: frame_segments_def)

lemma frame_bitmap_ready:
  assumes "ready s"
  shows "frame_bitmap (animateFrame s) =
           Some [Stroke (cv_path (draw_edges (animationProgress s)
                   (beginPath (fresh_canvas (CANVAS_SIZE, CANVAS_SIZE, True))))) gradient_style 8]"
  using animateFrame_ready [OF assms, of "fresh_canvas (CANVAS_SIZE, CANVAS_SIZE, True)"] by auto

lemma run_ticks:
  assumes "ready s" "live h s" "animationProgress s + int k \<le> ANIMATION_DURATION"
  shows "\<exists>s'. run (replicate k (Tick h)) s = Inr s' \<and> ready s' \<and>
           animationProgress s' = animationProgress s + int k \<and>
           timers s' = timers s \<and> animationInterval s' = animationInterval s \<and>
           doc_button s' = doc_button s \<and> next_timer s' = next_timer s"
  using assms
proof (induction k arbitrary: s)
  case 0
  then show ?case by simp
next
  case (Suc k)
  from Suc.prems(3) have ne: "animationProgress s \<noteq> ANIMATION_DURATION" by simp
  from animateFrame_ready [OF Suc.prems(1), of "fresh_canvas (0, 0, True)"] ne
  obtain s1 where s1: "animateFrame s = Inr s1" "ready s1" "doc_button s1 = doc_button s"
      "next_timer s1 = next_timer s" "timers s1 = timers s"
      "animationInterval s1 = animationInterval s"
      "animationProgress s1 = animationProgress s + 1"
    by auto
  have "live h s1" using Suc.prems(2) s1(5) by (simp add: live_def)
  moreover have "animationProgress s1 + int k \<le> ANIMATION_DURATION"
    using Suc.prems(3) s1(7) by simp
  ultimately obtain s' where s': "run (replicate k (Tick h)) s1 = Inr s'" "ready s'"
      "animationProgress s' = animationProgress s1 + int k"
      "timers s' = timers s1" "animationInterval s' = animationInterval s1"
      "doc_button s' = doc_button s1" "next_timer s' = next_timer s1"
    using Suc.IH [OF s1(2)] by blast
  show ?case
    using Suc.prems(2) s1 s' by (simp add: fire_def)
qed


lemma listening_page_ready: "listening page_ready"
  unfolding page_ready_def page0_def
  by (rule init_ok(3) [where c = "fresh_canvas (300, 150, True)" and b = "fresh_button False"
        and f = "fresh_link ''favicon.ico''"])
     (simp_all add: module_load_def fresh_canvas_def)

lemma page_ready_timers: "next_timer page_ready = 1" "timers page_ready = []"
  "animationProgress page_ready = 0" "animationInterval page_ready = None"
  by (simp_all add: page_ready_def init_keeps page0_def module_load_def)

lemma run_page0: "run (CallInit # MouseEnter # evs) page0 = run evs (handleButtonHover page_ready)"
  using listening_page_ready by (simp add: fire_def page_ready_def)




lemma init_missing_iter:
  assumes "doc_canvas s = None \<or> doc_button s = None \<or> doc_favicon s = None"
  shows "doc_canvas (((\<lambda>w. snd (init w)) ^^ n) s) = doc_canvas s \<and>
         doc_button (((\<lambda>w. snd (init w)) ^^ n) s) = doc_button s \<and>
         doc_favicon (((\<lambda>w. snd (init w)) ^^ n) s) = doc_favicon s \<and>
         timers (((\<lambda>w. snd (init w)) ^^ n) s) = timers s \<and>
         next_timer (((\<lambda>w. snd (init w)) ^^ n) s) = next_timer s \<and>
         animationProgress (((\<lambda>w. snd (init w)) ^^ n) s) = animationProgress s \<and>
         animationInterval (((\<lambda>w. snd (init w)) ^^ n) s) = animationInterval s"
proof (induction n)
  case 0
  show ?case by simp
next
  case (Suc n)
  let ?w = "((\<lambda>w. snd (init w)) ^^ n) s"
  from Suc assms have m: "doc_canvas ?w = None \<or> doc_button ?w = None \<or> doc_favicon ?w = None"
    by simp
  from Suc show ?case
    by (simp add: init_keeps init_missing(2,3) [OF m])
qed


lemma partial_positive:
  assumes "ready s" "25 < animationProgress s" "animationProgress s \<le> 100"
  shows "0 < last (map seg_len (frame_segments (animateFrame s)))"
  using assms(2,3)
  by (simp add: frame_segments_ready [OF assms(1)] draw_edges_path beginPath_path
        segments_def CANVAS_SIZE_def ANIMATION_DURATION_def abs_if)
     (auto simp: field_simps)
















text \<open>
  Claim C3, amended. For every progress with 50 < progress \<le> 75 the frame-draw step
  paints the top and right edges in full and a bottom segment from the bottom-right
  corner \<open>(CANVAS_SIZE, CANVAS_SIZE)\<close> leftward to the point whose x-coordinate is
  \<open>- ((CANVAS_SIZE / 25) * (progress - 75))\<close>, measured from the left edge. The length of
  that segment is \<open>(CANVAS_SIZE / 25) * (progress - 50)\<close>.
\<close>

theorem stage_bottom:
  assumes "ready s" "50 < animationProgress s" "animationProgress s \<le> 75"
  shows "(let x = - ((CANVAS_SIZE / 25) * of_int (animationProgress s - 75)) in
           frame_bitmap (animateFrame s) =
             Some [Stroke [MoveTo 0 0, LineTo CANVAS_SIZE 0,
                           MoveTo CANVAS_SIZE 0, LineTo CANVAS_SIZE CANVAS_SIZE,
                           MoveTo CANVAS_SIZE CANVAS_SIZE, LineTo x CANVAS_SIZE] gradient_style 8] \<and>
           frame_segments (animateFrame s) =
             [((0, 0), (CANVAS_SIZE, 0)), ((CANVAS_SIZE, 0), (CANVAS_SIZE, CANVAS_SIZE)),
              ((CANVAS_SIZE, CANVAS_SIZE), (x, CANVAS_SIZE))] \<and>
           map seg_len (frame_segments (animateFrame s)) =
             [CANVAS_SIZE, CANVAS_SIZE, (CANVAS_SIZE / 25) * of_int (animationProgress s - 50)] \<and>
           0 \<le> x \<and> x < CANVAS_SIZE)"
  using assms(2,3)
  by (simp add: Let_def frame_bitmap_ready [OF assms(1)]
        frame_segments_ready [OF assms(1)] draw_edges_path beginPath_path
        segments_def CANVAS_SIZE_def abs_if)
     (auto simp: field_simps)

theorem stage_bottom_witness:
  "ready (page_ready\<lparr>animationProgress := 60\<rparr>) \<and>
   frame_segments (animateFrame (page_ready\<lparr>animationProgress := 60\<rparr>)) =
     [((0, 0), (32, 0)), ((32, 0), (32, 32)), ((32, 32), (96 / 5, 32))] \<and>
   map seg_len (frame_segments (animateFrame (page_ready\<lparr>animationProgress := 60\<rparr>))) =
     [32, 32, 64 / 5]"
proof -
  have r: "ready (page_ready\<lparr>animationProgress := 60\<rparr>)"
    by (simp add: ready_progress ready_page_ready)
  from stage_bottom [OF r] show ?thesis
    by (simp add: r Let_def CANVAS_SIZE_def)
qed

text \<open>
  Claim C3 as stated fails. At progress 60 the third segment runs from \<open>(32, 32)\<close> to
  \<open>(96/5, 32)\<close>: its length is \<open>64/5\<close>, not the magnitude \<open>96/5\<close> of
  \<open>(CANVAS_SIZE / 25) * (60 - 75)\<close>, and its end is not that negative value taken as an
  offset from the right edge (which would be \<open>x = 64/5\<close>).
\<close>

theorem stage_bottom_counterexample:
  "frame_segments (animateFrame (page_ready\<lparr>animationProgress := 60\<rparr>)) =
     [((0, 0), (32, 0)), ((32, 0), (32, 32)), ((32, 32), (96 / 5, 32))] \<and>
   seg_len ((32, 32), (96 / 5, 32)) = 64 / 5 \<and>
   seg_len ((32, 32), (96 / 5, 32)) \<noteq> \<bar>(CANVAS_SIZE / 25) * (60 - 75)\<bar> \<and>
   96 / 5 \<noteq> CANVAS_SIZE + (CANVAS_SIZE / 25) * (60 - 75)"
proof -
  have r: "ready (page_ready\<lparr>animationProgress := 60\<rparr>)"
    by (simp add: ready_progress ready_page_ready)
  show ?thesis
    by (simp add: frame_segments_ready [OF r] draw_edges_path beginPath_path
        segments_def CANVAS_SIZE_def)
qed

text \<open>
  Claim C4, amended. For every progress with 75 < progress \<le> 100 the frame-draw step
  paints the top, right and bottom edges in full and a left segment from the bottom-left
  corner \<open>(0, CANVAS_SIZE)\<close> upward to the point whose y-coordinate is
  \<open>- ((CANVAS_SIZE / 25) * (progress - 100))\<close>, measured from the top edge. The length of
  that segment is \<open>(CANVAS_SIZE / 25) * (progress - 75)\<close>.
\<close>

theorem stage_left:
  assumes "ready s" "75 < animationProgress s" "animationProgress s \<le> 100"
  shows "(let y = - ((CANVAS_SIZE / 25) * of_int (animationProgress s - 100)) in
           frame_bitmap (animateFrame s) =
             Some [Stroke [MoveTo 0 0, LineTo CANVAS_SIZE 0,
                           MoveTo CANVAS_SIZE 0, LineTo CANVAS_SIZE CANVAS_SIZE,
                           MoveTo CANVAS_SIZE CANVAS_SIZE, LineTo 0 CANVAS_SIZE,
                           MoveTo 0 CANVAS_SIZE, LineTo 0 y] gradient_style 8] \<and>
           frame_segments (animateFrame s) =
             [((0, 0), (CANVAS_SIZE, 0)), ((CANVAS_SIZE, 0), (CANVAS_SIZE, CANVAS_SIZE)),
              ((CANVAS_SIZE, CANVAS_SIZE), (0, CANVAS_SIZE)), ((0, CANVAS_SIZE), (0, y))] \<and>
           map seg_len (frame_segments (animateFrame s)) =
             [CANVAS_SIZE, CANVAS_SIZE, CANVAS_SIZE,
              (CANVAS_SIZE / 25) * of_int (animationProgress s - 75)] \<and>
           0 \<le> y \<and> y < CANVAS_SIZE)"
  using assms(2,3)
  by (simp add: Let_def frame_bitmap_ready [OF assms(1)]
        frame_segments_ready [OF assms(1)] draw_edges_path beginPath_path
        segments_def CANVAS_SIZE_def ANIMATION_DURATION_def abs_if)
     (auto simp: field_simps)

theorem stage_left_witness:
  "ready (page_ready\<lparr>animationProgress := 90\<rparr>) \<and>
   frame_segments (animateFrame (page_ready\<lparr>animationProgress := 90\<rparr>)) =
     [((0, 0), (32, 0)), ((32, 0), (32, 32)), ((32, 32), (0, 32)), ((0, 32), (0, 64 / 5))] \<and>
   map seg_len (frame_segments (animateFrame (page_ready\<lparr>animationProgress := 90\<rparr>))) =
     [32, 32, 32, 96 / 5]"
proof -
  have r: "ready (page_ready\<lparr>animationProgress := 90\<rparr>)"
    by (simp add: ready_progress ready_page_ready)
  from stage_left [OF r] show ?thesis
    by (simp add: r Let_def CANVAS_SIZE_def)
qed

text \<open>
  Claim C4 as stated fails. At progress 90 the fourth segment runs from \<open>(0, 32)\<close> to
  \<open>(0, 64/5)\<close>: its length is \<open>96/5\<close>, not the magnitude \<open>64/5\<close> of
  \<open>(CANVAS_SIZE / 25) * (90 - 100)\<close>, and its end is not that negative value taken as an
  offset from the bottom edge (which would be \<open>y = 96/5\<close>).
\<close>

theorem stage_left_counterexample:
  "frame_segments (animateFrame (page_ready\<lparr>animationProgress := 90\<rparr>)) =
     [((0, 0), (32, 0)), ((32, 0), (32, 32)), ((32, 32), (0, 32)), ((0, 32), (0, 64 / 5))] \<and>
   seg_len ((0, 32), (0, 64 / 5)) = 96 / 5 \<and>
   seg_len ((0, 32), (0, 64 / 5)) \<noteq> \<bar>(CANVAS_SIZE / 25) * (90 - 100)\<bar> \<and>
   64 / 5 \<noteq> CANVAS_SIZE + (CANVAS_SIZE / 25) * (90 - 100)"
proof -
  have r: "ready (page_ready\<lparr>animationProgress := 90\<rparr>)"
    by (simp add: ready_progress ready_page_ready)
  show ?thesis
    by (simp add: frame_segments_ready [OF r] draw_edges_path beginPath_path
        segments_def CANVAS_SIZE_def ANIMATION_DURATION_def)
qed

text \<open>
  Claim C5. For every progress in [0, 25] the frame-draw step paints a single horizontal
  segment from the top-left corner \<open>(0, 0)\<close> to \<open>((CANVAS_SIZE / 25) * progress, 0)\<close>. Its
  length is \<open>(CANVAS_SIZE / 25) * progress\<close>; clamping that value to \<open>[0, CANVAS_SIZE]\<close>
  changes nothing, and it equals \<open>CANVAS_SIZE\<close> exactly at progress 25.
\<close>

theorem stage_top:
  assumes "ready s" "0 \<le> animationProgress s" "animationProgress s \<le> 25"
  shows "(let w = (CANVAS_SIZE / 25) * of_int (animationProgress s) in
           frame_bitmap (animateFrame s) = Some [Stroke [MoveTo 0 0, LineTo w 0] gradient_style 8] \<and>
           frame_segments (animateFrame s) = [((0, 0), (w, 0))] \<and>
           seg_len ((0, 0), (w, 0)) = w \<and>
           w = max 0 (min CANVAS_SIZE w) \<and>
           (w = CANVAS_SIZE \<longleftrightarrow> animationProgress s = 25))"
  using assms(2,3)
  by (simp add: Let_def frame_bitmap_ready [OF assms(1)]
      frame_segments_ready [OF assms(1)] draw_edges_path beginPath_path
      segments_def CANVAS_SIZE_def)

theorem stage_top_witness:
  "ready (page_ready\<lparr>animationProgress := 12\<rparr>) \<and>
   frame_bitmap (animateFrame (page_ready\<lparr>animationProgress := 12\<rparr>)) =
     Some [Stroke [MoveTo 0 0, LineTo (384 / 25) 0] gradient_style 8] \<and>
   frame_segments (animateFrame (page_ready\<lparr>animationProgress := 12\<rparr>)) = [((0, 0), (384 / 25, 0))]"
proof -
  have r: "ready (page_ready\<lparr>animationProgress := 12\<rparr>)"
    by (simp add: ready_progress ready_page_ready)
  from stage_top [OF r] show ?thesis
    by (simp add: r Let_def CANVAS_SIZE_def)
qed

text \<open>
  Claim C6 as stated fails. At progress 26, the tick after the boundary 25, the partial
  segment of the right edge runs from \<open>(32, 0)\<close> to \<open>(32, 32/25)\<close>: its length is
  \<open>32/25\<close>, not 0.
\<close>

theorem quartile_boundaries_counterexample:
  "frame_segments (animateFrame (page_ready\<lparr>animationProgress := 26\<rparr>)) =
     [((0, 0), (32, 0)), ((32, 0), (32, 32 / 25))] \<and>
   seg_len ((32, 0), (32, 32 / 25)) = 32 / 25 \<and>
   seg_len ((32, 0), (32, 32 / 25)) \<noteq> 0"
proof -
  have r: "ready (page_ready\<lparr>animationProgress := 26\<rparr>)"
    by (simp add: ready_progress ready_page_ready)
  show ?thesis
    by (simp add: frame_segments_ready [OF r] draw_edges_path beginPath_path
        segments_def CANVAS_SIZE_def)
qed

text \<open>
  Claim C6, amended. At each quartile boundary progress = 25, 50, 75 the segment of
  that quartile is drawn at full edge length \<open>CANVAS_SIZE\<close>; on the following tick
  (progress = 26, 51, 76) the partial segment of the next quartile is drawn with length
  \<open>CANVAS_SIZE / 25\<close>, one step: a segment of length 0 of the next quartile is never
  drawn.
\<close>

theorem quartile_boundaries:
  assumes "ready s"
  shows "(animationProgress s = 25 \<longrightarrow>
            frame_segments (animateFrame s) = [((0, 0), (CANVAS_SIZE, 0))] \<and>
            map seg_len (frame_segments (animateFrame s)) = [CANVAS_SIZE]) \<and>
         (animationProgress s = 50 \<longrightarrow>
            frame_segments (animateFrame s) =
              [((0, 0), (CANVAS_SIZE, 0)), ((CANVAS_SIZE, 0), (CANVAS_SIZE, CANVAS_SIZE))] \<and>
            map seg_len (frame_segments (animateFrame s)) = [CANVAS_SIZE, CANVAS_SIZE]) \<and>
         (animationProgress s = 75 \<longrightarrow>
            frame_segments (animateFrame s) =
              [((0, 0), (CANVAS_SIZE, 0)), ((CANVAS_SIZE, 0), (CANVAS_SIZE, CANVAS_SIZE)),
               ((CANVAS_SIZE, CANVAS_SIZE), (0, CANVAS_SIZE))] \<and>
            map seg_len (frame_segments (animateFrame s)) =
              [CANVAS_SIZE, CANVAS_SIZE, CANVAS_SIZE]) \<and>
         (animationProgress s = 26 \<longrightarrow>
            frame_segments (animateFrame s) =
              [((0, 0), (CANVAS_SIZE, 0)), ((CANVAS_SIZE, 0), (CANVAS_SIZE, CANVAS_SIZE / 25))] \<and>
            map seg_len (frame_segments (animateFrame s)) = [CANVAS_SIZE, CANVAS_SIZE / 25]) \<and>
         (animationProgress s = 51 \<longrightarrow>
            frame_segments (animateFrame s) =
              [((0, 0), (CANVAS_SIZE, 0)), ((CANVAS_SIZE, 0), (CANVAS_SIZE, CANVAS_SIZE)),
               ((CANVAS_SIZE, CANVAS_SIZE), (CANVAS_SIZE - CANVAS_SIZE / 25, CANVAS_SIZE))] \<and>
            map seg_len (frame_segments (animateFrame s)) =
              [CANVAS_SIZE, CANVAS_SIZE, CANVAS_SIZE / 25]) \<and>
         (animationProgress s = 76 \<longrightarrow>
            frame_segments (animateFrame s) =
              [((0, 0), (CANVAS_SIZE, 0)), ((CANVAS_SIZE, 0), (CANVAS_SIZE, CANVAS_SIZE)),
               ((CANVAS_SIZE, CANVAS_SIZE), (0, CANVAS_SIZE)),
               ((0, CANVAS_SIZE), (0, CANVAS_SIZE - CANVAS_SIZE / 25))] \<and>
            map seg_len (frame_segments (animateFrame s)) =
              [CANVAS_SIZE, CANVAS_SIZE, CANVAS_SIZE, CANVAS_SIZE / 25]) \<and>
         (25 < animationProgress s \<and> animationProgress s \<le> 100 \<longrightarrow>
            0 < last (map seg_len (frame_segments (animateFrame s))))"
proof -
  have six: "(animationProgress s = 25 \<longrightarrow>
            frame_segments (animateFrame s) = [((0, 0), (CANVAS_SIZE, 0))] \<and>
            map seg_len (frame_segments (animateFrame s)) = [CANVAS_SIZE]) \<and>
         (animationProgress s = 50 \<longrightarrow>
            frame_segments (animateFrame s) =
              [((0, 0), (CANVAS_SIZE, 0)), ((CANVAS_SIZE, 0), (CANVAS_SIZE, CANVAS_SIZE))] \<and>
            map seg_len (frame_segments (animateFrame s)) = [CANVAS_SIZE, CANVAS_SIZE]) \<and>
         (animationProgress s = 75 \<longrightarrow>
            frame_segments (animateFrame s) =
              [((0, 0), (CANVAS_SIZE, 0)), ((CANVAS_SIZE, 0), (CANVAS_SIZE, CANVAS_SIZE)),
               ((CANVAS_SIZE, CANVAS_SIZE), (0, CANVAS_SIZE))] \<and>
            map seg_len (frame_segments (animateFrame s)) =
              [CANVAS_SIZE, CANVAS_SIZE, CANVAS_SIZE]) \<and>
         (animationProgress s = 26 \<longrightarrow>
            frame_segments (animateFrame s) =
              [((0, 0), (CANVAS_SIZE, 0)), ((CANVAS_SIZE, 0), (CANVAS_SIZE, CANVAS_SIZE / 25))] \<and>
            map seg_len (frame_segments (animateFrame s)) = [CANVAS_SIZE, CANVAS_SIZE / 25]) \<and>
         (animationProgress s = 51 \<longrightarrow>
            frame_segments (animateFrame s) =
              [((0, 0), (CANVAS_SIZE, 0)), ((CANVAS_SIZE, 0), (CANVAS_SIZE, CANVAS_SIZE)),
               ((CANVAS_SIZE, CANVAS_SIZE), (CANVAS_SIZE - CANVAS_SIZE / 25, CANVAS_SIZE))] \<and>
            map seg_len (frame_segments (animateFrame s)) =
              [CANVAS_SIZE, CANVAS_SIZE, CANVAS_SIZE / 25]) \<and>
         (animationProgress s = 76 \<longrightarrow>
            frame_segments (animateFrame s) =
              [((0, 0), (CANVAS_SIZE, 0)), ((CANVAS_SIZE, 0), (CANVAS_SIZE, CANVAS_SIZE)),
               ((CANVAS_SIZE, CANVAS_SIZE), (0, CANVAS_SIZE)),
               ((0, CANVAS_SIZE), (0, CANVAS_SIZE - CANVAS_SIZE / 25))] \<and>
            map seg_len (frame_segments (animateFrame s)) =
              [CANVAS_SIZE, CANVAS_SIZE, CANVAS_SIZE, CANVAS_SIZE / 25])"
    by (simp add: frame_segments_ready [OF assms] draw_edges_path beginPath_path
        segments_def CANVAS_SIZE_def ANIMATION_DURATION_def)
  have pos: "25 < animationProgress s \<and> animationProgress s \<le> 100 \<longrightarrow>
            0 < last (map seg_len (frame_segments (animateFrame s)))"
    by (rule impI, erule conjE) (rule partial_positive [OF assms])
  show ?thesis
    by (insert six pos, intro conjI; (elim conjE, assumption))
qed

theorem quartile_boundaries_witness:
  "map seg_len (frame_segments (animateFrame (page_ready\<lparr>animationProgress := 25\<rparr>))) = [32] \<and>
   map seg_len (frame_segments (animateFrame (page_ready\<lparr>animationProgress := 50\<rparr>))) = [32, 32] \<and>
   map seg_len (frame_segments (animateFrame (page_ready\<lparr>animationProgress := 75\<rparr>))) = [32, 32, 32] \<and>
   map seg_len (frame_segments (animateFrame (page_ready\<lparr>animationProgress := 26\<rparr>))) =
     [32, 32 / 25] \<and>
   map seg_len (frame_segments (animateFrame (page_ready\<lparr>animationProgress := 51\<rparr>))) =
     [32, 32, 32 / 25] \<and>
   map seg_len (frame_segments (animateFrame (page_ready\<lparr>animationProgress := 76\<rparr>))) =
     [32, 32, 32, 32 / 25] \<and>
   0 < last (map seg_len (frame_segments (animateFrame (page_ready\<lparr>animationProgress := 26\<rparr>))))"
proof -
  have r: "ready (page_ready\<lparr>animationProgress := p\<rparr>)" for p
    by (simp add: ready_progress ready_page_ready)
  show ?thesis
    using quartile_boundaries [OF r [of 25]] quartile_boundaries [OF r [of 50]]
      quartile_boundaries [OF r [of 75]] quartile_boundaries [OF r [of 26]]
      quartile_boundaries [OF r [of 51]] quartile_boundaries [OF r [of 76]]
    by (simp add: CANVAS_SIZE_def)
qed

text \<open>
  Claim C7. The trigger handler sets progress to 0 whatever its value was, sets a new
  repeating timer that calls the frame-draw step every 60 ms and keeps its handle in
  \<open>animationInterval\<close>, and sets \<open>disabled\<close> on the trigger element. Once \<open>init\<close> has
  attached it, the pointer entering the element runs exactly this handler.
\<close>

theorem trigger_handler:
  "animationProgress (handleButtonHover s) = 0 \<and>
   timers (handleButtonHover s) =
     timers s @ [\<lparr>tm_id = next_timer s, tm_callback = AnimateFrame, tm_delay = 60\<rparr>] \<and>
   animationInterval (handleButtonHover s) = Some (next_timer s) \<and>
   (\<forall>b. doc_button s = Some b \<longrightarrow>
        doc_button (handleButtonHover s) = Some (b\<lparr>disabled := True\<rparr>)) \<and>
   (listening s \<longrightarrow> fire MouseEnter s = Inr (handleButtonHover s))"
  by (simp add: handleButtonHover_fields ANIMATION_SPEED_def fire_def)

theorem trigger_handler_witness:
  "\<exists>s b. run (CallInit # MouseEnter # replicate 40 (Tick 1)) page0 = Inr s \<and>
     animationProgress s = 40 \<and> listening s \<and> doc_button s = Some b \<and>
     fire MouseEnter s = Inr (handleButtonHover s) \<and>
     animationProgress (handleButtonHover s) = 0 \<and>
     map tm_id (timers (handleButtonHover s)) = [1, 2] \<and>
     map tm_delay (timers (handleButtonHover s)) = [60, 60] \<and>
     animationInterval (handleButtonHover s) = Some 2 \<and>
     doc_button (handleButtonHover s) = Some (b\<lparr>disabled := True\<rparr>)"
proof -
  let ?s0 = "handleButtonHover page_ready"
  have r0: "ready ?s0" by (simp add: handleButtonHover_ready ready_page_ready)
  have t0: "timers ?s0 = [\<lparr>tm_id = 1, tm_callback = AnimateFrame, tm_delay = ANIMATION_SPEED\<rparr>]"
    "animationProgress ?s0 = 0" "next_timer ?s0 = 2"
    by (simp_all add: handleButtonHover_fields page_ready_timers)
  have l0: "live 1 ?s0" by (simp add: live_def t0)
  from run_ticks [OF r0 l0, of 40] obtain s where
    s: "run (replicate 40 (Tick 1)) ?s0 = Inr s" "ready s" "animationProgress s = 40"
      "timers s = timers ?s0" "doc_button s = doc_button ?s0" "next_timer s = next_timer ?s0"
    by (auto simp: t0 ANIMATION_DURATION_def)
  have ls: "listening s"
    using s(5) listening_page_ready handleButtonHover_listening [of page_ready]
    by (simp add: listening_def)
  from s(2) obtain b where b: "doc_button s = Some b" by (auto simp: ready_def)
  from trigger_handler [of s] ls b
  have "fire MouseEnter s = Inr (handleButtonHover s)"
    "animationProgress (handleButtonHover s) = 0"
    "timers (handleButtonHover s) =
       timers s @ [\<lparr>tm_id = next_timer s, tm_callback = AnimateFrame, tm_delay = 60\<rparr>]"
    "animationInterval (handleButtonHover s) = Some (next_timer s)"
    "doc_button (handleButtonHover s) = Some (b\<lparr>disabled := True\<rparr>)"
    by simp_all
  moreover have "run (CallInit # MouseEnter # replicate 40 (Tick 1)) page0 = Inr s"
    by (simp only: run_page0 s(1))
  ultimately show ?thesis
    using s(3) ls b
    by (intro exI [of _ s] exI [of _ b]) (simp add: s(4,6) t0 ANIMATION_SPEED_def)
qed




text \<open>
  Claim C9. When the canvas, the button or the icon link is absent from the document,
  every call of \<open>init\<close>, the first and each later one, returns \<open>false\<close> and leaves the
  page as it was: the three elements (hence the listeners of the button: none is
  attached), the timers, and also progress and the stored handle. Only the console
  (the diagnostic) and the module's own variables \<open>canvas\<close>, \<open>button\<close>, \<open>favicon\<close>
  change.
\<close>

theorem init_missing_collaborator:
  assumes "doc_canvas s = None \<or> doc_button s = None \<or> doc_favicon s = None"
  shows "(let w = ((\<lambda>w. snd (init w)) ^^ n) s in
           fst (init w) = False \<and>
           doc_canvas (snd (init w)) = doc_canvas s \<and>
           doc_button (snd (init w)) = doc_button s \<and>
           doc_favicon (snd (init w)) = doc_favicon s \<and>
           listening (snd (init w)) = listening s \<and>
           timers (snd (init w)) = timers s \<and>
           next_timer (snd (init w)) = next_timer s \<and>
           animationProgress (snd (init w)) = animationProgress s \<and>
           animationInterval (snd (init w)) = animationInterval s)"
proof -
  let ?w = "((\<lambda>w. snd (init w)) ^^ n) s"
  note it = init_missing_iter [OF assms, of n]
  from it assms have m: "doc_canvas ?w = None \<or> doc_button ?w = None \<or> doc_favicon ?w = None"
    by simp
  from it show ?thesis
    by (simp add: Let_def init_keeps init_missing [OF m] listening_def)
qed

theorem init_missing_collaborator_witness:
  "doc_canvas (module_load None (Some False) (Some ''favicon.ico'')) = None \<and>
   fst (init (module_load None (Some False) (Some ''favicon.ico''))) = False \<and>
   fst (init (snd (init (module_load None (Some False) (Some ''favicon.ico''))))) = False \<and>
   doc_button (snd (init (snd (init (module_load None (Some False) (Some ''favicon.ico''))))))
     = Some \<lparr>disabled = False, listeners = []\<rparr> \<and>
   \<not> listening (snd (init (snd (init (module_load None (Some False) (Some ''favicon.ico''))))))"
proof -
  let ?s = "module_load None (Some False) (Some ''favicon.ico'')"
  have c: "doc_canvas ?s = None \<or> doc_button ?s = None \<or> doc_favicon ?s = None"
    by (simp add: module_load_def)
  have b: "doc_button ?s = Some \<lparr>disabled = False, listeners = []\<rparr>" "\<not> listening ?s"
    "doc_canvas ?s = None"
    by (simp_all add: module_load_def fresh_button_def listening_def)
  from init_missing_collaborator [OF c, of 0] init_missing_collaborator [OF c, of 1] b
  show ?thesis
    by (simp add: Let_def)
qed

text \<open>
  Claim C10. When the three elements are found but the canvas gives no 2D context,
  \<open>init\<close> returns \<open>false\<close> and attaches no listener (the button is left as it was), yet
  the canvas has already been given width and height \<open>CANVAS_SIZE\<close>: a canvas of
  another size has been changed by the failed call.
\<close>

theorem init_no_context:
  assumes "doc_canvas s = Some c" "\<not> supports2d c" "doc_button s = Some b" "doc_favicon s = Some f"
  shows "fst (init s) = False \<and>
         doc_button (snd (init s)) = Some b \<and>
         listening (snd (init s)) = listening s \<and>
         context_var (snd (init s)) = None \<and>
         doc_canvas (snd (init s)) = Some (set_height CANVAS_SIZE (set_width CANVAS_SIZE c)) \<and>
         cv_width (set_height CANVAS_SIZE (set_width CANVAS_SIZE c)) = 32 \<and>
         cv_height (set_height CANVAS_SIZE (set_width CANVAS_SIZE c)) = 32 \<and>
         (cv_width c \<noteq> 32 \<or> cv_height c \<noteq> 32 \<longrightarrow> doc_canvas (snd (init s)) \<noteq> doc_canvas s)"
proof -
  have cx: "context_var (snd (init s)) = None"
    using assms
    by (simp add: init_def Let_def console_error_def querySelector_canvas_def
      querySelector_button_def querySelector_icon_def setupCanvas_def getContext_def
      set_height_def set_width_def reset_surface_def)
  have d: "cv_width (set_height CANVAS_SIZE (set_width CANVAS_SIZE c)) = 32"
    "cv_height (set_height CANVAS_SIZE (set_width CANVAS_SIZE c)) = 32"
    by (simp_all add: set_height_def set_width_def reset_surface_def CANVAS_SIZE_def)
  have ne: "set_height CANVAS_SIZE (set_width CANVAS_SIZE c) \<noteq> c"
    if "cv_width c \<noteq> 32 \<or> cv_height c \<noteq> 32"
    using that d by metis
  show ?thesis
    using ne by (auto simp: init_no2d [OF assms] cx d assms listening_def)
qed

theorem init_no_context_witness:
  "fst (init (module_load (Some (300, 150, False)) (Some False) (Some ''favicon.ico''))) = False \<and>
   doc_button (snd (init (module_load (Some (300, 150, False)) (Some False) (Some ''favicon.ico''))))
     = Some \<lparr>disabled = False, listeners = []\<rparr> \<and>
   map_option cv_width
     (doc_canvas (module_load (Some (300, 150, False)) (Some False) (Some ''favicon.ico'')))
     = Some 300 \<and>
   map_option cv_width
     (doc_canvas (snd (init (module_load (Some (300, 150, False)) (Some False) (Some ''favicon.ico'')))))
     = Some 32 \<and>
   map_option cv_height
     (doc_canvas (snd (init (module_load (Some (300, 150, False)) (Some False) (Some ''favicon.ico'')))))
     = Some 32 \<and>
   doc_canvas (snd (init (module_load (Some (300, 150, False)) (Some False) (Some ''favicon.ico''))))
     \<noteq> doc_canvas (module_load (Some (300, 150, False)) (Some False) (Some ''favicon.ico''))"
proof -
  let ?s = "module_load (Some (300, 150, False)) (Some False) (Some ''favicon.ico'')"
  have h: "doc_canvas ?s = Some (fresh_canvas (300, 150, False))"
    "\<not> supports2d (fresh_canvas (300, 150, False))"
    "doc_button ?s = Some \<lparr>disabled = False, listeners = []\<rparr>"
    "doc_favicon ?s = Some (fresh_link ''favicon.ico'')"
    by (simp_all add: module_load_def fresh_canvas_def fresh_button_def)
  have w: "cv_width (fresh_canvas (300, 150, False)) = 300"
    by (simp add: fresh_canvas_def)
  from init_no_context [OF h] w show ?thesis
    by (auto simp: h(1))
qed

end
